theory Spec2Isabelle
  imports Main
begin

section \<open>Values travelling through the dispatcher\<close>

text \<open>
  \<^verbatim>\<open>handleMessage\<close> and \<^verbatim>\<open>dispatch\<close> take an \<^verbatim>\<open>interface{}\<close> and switch on its
  dynamic type. A value of the model is therefore a dynamic type together with its
  payload. The struct types \<^verbatim>\<open>TextMessage\<close> ... \<^verbatim>\<open>LiveLocationMessage\<close>, the
  generated \<^verbatim>\<open>proto.WebMessageInfo\<close> and the error values are declared outside
  \<^verbatim>\<open>handler.go\<close>; their payloads are the type parameters \<open>'m\<close>, \<open>'w\<close> and \<open>'e\<close>.

  \<^item> \<open>GoNil\<close> is the nil interface value.
  \<^item> \<open>GoError e\<close> is any value whose dynamic type implements \<^verbatim>\<open>error\<close>.
  \<^item> \<open>GoString s\<close> is a value of type \<^verbatim>\<open>string\<close>.
  \<^item> \<open>WebMessageInfo w\<close> is a \<^verbatim>\<open>*proto.WebMessageInfo\<close>.
  \<^item> \<open>Node d a c\<close> is a non-nil \<^verbatim>\<open>*binary.Node\<close> with its \<^verbatim>\<open>Description\<close>,
    \<^verbatim>\<open>Attributes\<close> (a \<^verbatim>\<open>map[string]string\<close>) and \<^verbatim>\<open>Content\<close> (an \<^verbatim>\<open>interface{}\<close>).
  \<^item> \<open>Slice vs\<close> is a \<^verbatim>\<open>[]interface{}\<close>.
  \<^item> \<open>Other t\<close> is a value of any other dynamic type, \<open>t\<close> naming the type.

  None of the struct types, nor \<^verbatim>\<open>*proto.WebMessageInfo\<close> or \<^verbatim>\<open>*binary.Node\<close>,
  implements \<^verbatim>\<open>error\<close>, and \<^verbatim>\<open>case string\<close> matches the type \<^verbatim>\<open>string\<close> only, so
  the cases of both type switches are disjoint and one constructor per case is exact.
\<close>

datatype ('e, 'm, 'w) val =
    GoNil
  | GoError 'e
  | GoString string
  | TextMessage 'm
  | ImageMessage 'm
  | VideoMessage 'm
  | AudioMessage 'm
  | DocumentMessage 'm
  | LocationMessage 'm
  | LiveLocationMessage 'm
  | WebMessageInfo 'w
  | Node string "string \<Rightarrow> string option" "('e, 'm, 'w) val"
  | Slice "('e, 'm, 'w) val list"
  | Other string

section \<open>Handlers\<close>

text \<open>
  The optional interfaces of \<^verbatim>\<open>handler.go\<close>. Each embeds \<^verbatim>\<open>Handler\<close> and adds one
  method.
\<close>

datatype iface =
    JsonMessageHandler
  | TextMessageHandler
  | ImageMessageHandler
  | VideoMessageHandler
  | AudioMessageHandler
  | DocumentMessageHandler
  | LocationMessageHandler
  | LiveLocationMessageHandler
  | RawMessageHandler

text \<open>
  The methods a goroutine can be started on: \<^verbatim>\<open>HandleError\<close> of \<^verbatim>\<open>Handler\<close> itself and
  the one method each optional interface adds.
\<close>

datatype meth =
    HandleError
  | HandleJsonMessage
  | HandleTextMessage
  | HandleImageMessage
  | HandleVideoMessage
  | HandleAudioMessage
  | HandleDocumentMessage
  | HandleLocationMessage
  | HandleLiveLocationMessage
  | HandleRawMessage

text \<open>
  A registered handler is a non-nil value of interface type \<^verbatim>\<open>Handler\<close>: an object
  (\<open>ident\<close> tells objects apart) whose dynamic type has \<^verbatim>\<open>HandleError\<close> and implements
  the optional interfaces listed in \<open>implements\<close>. The type assertion
  \<^verbatim>\<open>h.(TextMessageHandler)\<close> succeeds exactly when \<open>TextMessageHandler \<in> implements h\<close>.
\<close>

record Handler =
  ident :: nat
  implements :: "iface set"

section \<open>Effects\<close>

text \<open>
  Neither function returns a value; what they do is start goroutines, call the contact
  store and write to standard error. The model returns these effects in program order:
  \<^item> \<open>Go h m v\<close>: the statement \<^verbatim>\<open>go h.m(v)\<close> started method \<open>m\<close> of handler \<open>h\<close> on \<open>v\<close>;
  \<^item> \<open>UpdateContacts c\<close>: the call \<^verbatim>\<open>wac.updateContacts(c)\<close> (defined outside
    \<^verbatim>\<open>handler.go\<close>, recorded as a call);
  \<^item> \<open>Fprintf_Stderr f v\<close>: the call \<^verbatim>\<open>fmt.Fprintf(os.Stderr, f, v)\<close>.
\<close>

datatype ('e, 'm, 'w) effect =
    Go Handler meth "('e, 'm, 'w) val"
  | UpdateContacts "('e, 'm, 'w) val"
  | Fprintf_Stderr string "('e, 'm, 'w) val"

section \<open>The connection and AddHandler\<close>

text \<open>
  Of the \<^verbatim>\<open>Conn\<close> struct only the field \<^verbatim>\<open>handler\<close> is used here; the record is
  extensible, so the other fields are the \<open>more\<close> part.
  \<^verbatim>\<open>
  func (wac *Conn) AddHandler(handler Handler) {
      wac.handler = append(wac.handler, handler)
  }
  \<close>
\<close>

record Conn =
  handler :: "Handler list"

definition AddHandler :: "'a Conn_scheme \<Rightarrow> Handler \<Rightarrow> 'a Conn_scheme" where
  "AddHandler wac h = wac\<lparr>handler := handler wac @ [h]\<rparr>"

section \<open>handleMessage\<close>

text \<open>
  The loop \<^verbatim>\<open>for _, h := range handlers { body }\<close>, collecting the effects of the body
  in iteration order.
\<close>

primrec range_handlers :: "(Handler \<Rightarrow> 'x list) \<Rightarrow> Handler list \<Rightarrow> 'x list" where
  "range_handlers body [] = []"
| "range_handlers body (h # handlers) = body h @ range_handlers body handlers"

text \<open>
  One equation per case of the type switch, in the order of the source. The switch has
  no default case: a value matching no case (the nil interface included) falls through
  and the function returns.
\<close>

fun handleMessage :: "('e, 'm, 'w) val \<Rightarrow> Handler list \<Rightarrow> ('e, 'm, 'w) effect list" where
  "handleMessage (GoError m) handlers =
     range_handlers (\<lambda>h. [Go h HandleError (GoError m)]) handlers"
| "handleMessage (GoString m) handlers =
     range_handlers (\<lambda>h. if JsonMessageHandler \<in> implements h
        then [Go h HandleJsonMessage (GoString m)] else []) handlers"
| "handleMessage (TextMessage m) handlers =
     range_handlers (\<lambda>h. if TextMessageHandler \<in> implements h
        then [Go h HandleTextMessage (TextMessage m)] else []) handlers"
| "handleMessage (ImageMessage m) handlers =
     range_handlers (\<lambda>h. if ImageMessageHandler \<in> implements h
        then [Go h HandleImageMessage (ImageMessage m)] else []) handlers"
| "handleMessage (VideoMessage m) handlers =
     range_handlers (\<lambda>h. if VideoMessageHandler \<in> implements h
        then [Go h HandleVideoMessage (VideoMessage m)] else []) handlers"
| "handleMessage (AudioMessage m) handlers =
     range_handlers (\<lambda>h. if AudioMessageHandler \<in> implements h
        then [Go h HandleAudioMessage (AudioMessage m)] else []) handlers"
| "handleMessage (DocumentMessage m) handlers =
     range_handlers (\<lambda>h. if DocumentMessageHandler \<in> implements h
        then [Go h HandleDocumentMessage (DocumentMessage m)] else []) handlers"
| "handleMessage (LocationMessage m) handlers =
     range_handlers (\<lambda>h. if LocationMessageHandler \<in> implements h
        then [Go h HandleLocationMessage (LocationMessage m)] else []) handlers"
| "handleMessage (LiveLocationMessage m) handlers =
     range_handlers (\<lambda>h. if LiveLocationMessageHandler \<in> implements h
        then [Go h HandleLiveLocationMessage (LiveLocationMessage m)] else []) handlers"
| "handleMessage (WebMessageInfo m) handlers =
     range_handlers (\<lambda>h. if RawMessageHandler \<in> implements h
        then [Go h HandleRawMessage (WebMessageInfo m)] else []) handlers"
| "handleMessage _ handlers = []"

text \<open>
  \<^verbatim>\<open>
  func (wac *Conn) handle(message interface{}) {
      handleMessage(message, wac.handler)
  }
  \<close>
\<close>

definition handle :: "'a Conn_scheme \<Rightarrow> ('e, 'm, 'w) val \<Rightarrow> ('e, 'm, 'w) effect list" where
  "handle wac message = handleMessage message (handler wac)"

section \<open>dispatch\<close>

text \<open>
  Indexing a Go map with a key it does not hold gives the zero value of the element
  type, here the empty string.
\<close>

definition map_index :: "(string \<Rightarrow> string option) \<Rightarrow> string \<Rightarrow> string" where
  "map_index m k = (case m k of None \<Rightarrow> [] | Some v \<Rightarrow> v)"

text \<open>
  The loop \<^verbatim>\<open>for a := range con\<close> of the action branch. \<^verbatim>\<open>parseProtoMessage\<close>
  is defined outside \<^verbatim>\<open>handler.go\<close> and is the parameter \<open>parse\<close>; its result is
  handed to \<^verbatim>\<open>wac.handle\<close> as it comes.
  \<^verbatim>\<open>
  if v, ok := con[a].(*proto.WebMessageInfo); ok {
      wac.handle(v)
      wac.handle(parseProtoMessage(v))
  }
  \<close>
\<close>

fun range_con ::
  "('w \<Rightarrow> ('e, 'm, 'w) val) \<Rightarrow> 'a Conn_scheme \<Rightarrow> ('e, 'm, 'w) val list \<Rightarrow> ('e, 'm, 'w) effect list"
where
  "range_con parse wac [] = []"
| "range_con parse wac (WebMessageInfo v # con) =
     handle wac (WebMessageInfo v) @ handle wac (parse v) @ range_con parse wac con"
| "range_con parse wac (_ # con) = range_con parse wac con"

fun dispatch ::
  "('w \<Rightarrow> ('e, 'm, 'w) val) \<Rightarrow> 'a Conn_scheme \<Rightarrow> ('e, 'm, 'w) val \<Rightarrow> ('e, 'm, 'w) effect list"
where
  "dispatch parse wac GoNil = []"
| "dispatch parse wac (Node description attributes content) =
     (if description = ''action'' then
        (case content of Slice con \<Rightarrow> range_con parse wac con | _ \<Rightarrow> [])
      else if description = ''response'' \<and> map_index attributes ''type'' = ''contacts'' then
        [UpdateContacts content]
      else [])"
| "dispatch parse wac (GoError message) = handle wac (GoError message)"
| "dispatch parse wac (GoString message) = handle wac (GoString message)"
| "dispatch parse wac msg = [Fprintf_Stderr ''unknown type in dipatcher chan: %T'' msg]"

section \<open>Vocabulary of the claims\<close>

text \<open>
  The capability method an event is delivered through; \<open>None\<close> for a value that is not
  one of the recognized kinds (an error, a string, the seven chat-message variants, a
  raw envelope).
\<close>

fun callback :: "('e, 'm, 'w) val \<Rightarrow> meth option" where
  "callback (GoError _) = Some HandleError"
| "callback (GoString _) = Some HandleJsonMessage"
| "callback (TextMessage _) = Some HandleTextMessage"
| "callback (ImageMessage _) = Some HandleImageMessage"
| "callback (VideoMessage _) = Some HandleVideoMessage"
| "callback (AudioMessage _) = Some HandleAudioMessage"
| "callback (DocumentMessage _) = Some HandleDocumentMessage"
| "callback (LocationMessage _) = Some HandleLocationMessage"
| "callback (LiveLocationMessage _) = Some HandleLiveLocationMessage"
| "callback (WebMessageInfo _) = Some HandleRawMessage"
| "callback _ = None"

text \<open>
  Handler \<open>h\<close> satisfies the capability interface of event \<open>e\<close>. For an error this is
  \<^verbatim>\<open>Handler\<close> itself, which every registered handler satisfies.
\<close>

fun qualifies :: "Handler \<Rightarrow> ('e, 'm, 'w) val \<Rightarrow> bool" where
  "qualifies h (GoError _) = True"
| "qualifies h (GoString _) = (JsonMessageHandler \<in> implements h)"
| "qualifies h (TextMessage _) = (TextMessageHandler \<in> implements h)"
| "qualifies h (ImageMessage _) = (ImageMessageHandler \<in> implements h)"
| "qualifies h (VideoMessage _) = (VideoMessageHandler \<in> implements h)"
| "qualifies h (AudioMessage _) = (AudioMessageHandler \<in> implements h)"
| "qualifies h (DocumentMessage _) = (DocumentMessageHandler \<in> implements h)"
| "qualifies h (LocationMessage _) = (LocationMessageHandler \<in> implements h)"
| "qualifies h (LiveLocationMessage _) = (LiveLocationMessageHandler \<in> implements h)"
| "qualifies h (WebMessageInfo _) = (RawMessageHandler \<in> implements h)"
| "qualifies h _ = False"

text \<open>
  The fan-out the specification describes: one delivery of the event, through its
  capability method, to each entry of the list that qualifies, in list order.
\<close>

definition fanout :: "('e, 'm, 'w) val \<Rightarrow> Handler list \<Rightarrow> ('e, 'm, 'w) effect list" where
  "fanout e hs =
     (case callback e of
        None \<Rightarrow> []
      | Some m \<Rightarrow> map (\<lambda>h. Go h m e) (filter (\<lambda>h. qualifies h e) hs))"

text \<open>The handler a goroutine was started on, and the diagnostics among the effects.\<close>

fun receiver :: "('e, 'm, 'w) effect \<Rightarrow> Handler option" where
  "receiver (Go h m v) = Some h"
| "receiver _ = None"

fun is_delivery :: "('e, 'm, 'w) effect \<Rightarrow> bool" where
  "is_delivery (Go h m v) = True"
| "is_delivery _ = False"

fun is_diagnostic :: "('e, 'm, 'w) effect \<Rightarrow> bool" where
  "is_diagnostic (Fprintf_Stderr f v) = True"
| "is_diagnostic _ = False"

fun is_store_call :: "('e, 'm, 'w) effect \<Rightarrow> bool" where
  "is_store_call (UpdateContacts c) = True"
| "is_store_call _ = False"

fun is_error :: "('e, 'm, 'w) val \<Rightarrow> bool" where
  "is_error (GoError _) = True"
| "is_error _ = False"

fun is_chat :: "('e, 'm, 'w) val \<Rightarrow> bool" where
  "is_chat (TextMessage _) = True"
| "is_chat (ImageMessage _) = True"
| "is_chat (VideoMessage _) = True"
| "is_chat (AudioMessage _) = True"
| "is_chat (DocumentMessage _) = True"
| "is_chat (LocationMessage _) = True"
| "is_chat (LiveLocationMessage _) = True"
| "is_chat _ = False"

fun is_raw :: "('e, 'm, 'w) val \<Rightarrow> bool" where
  "is_raw (WebMessageInfo _) = True"
| "is_raw _ = False"

fun via :: "('e, 'm, 'w) effect \<Rightarrow> meth option" where
  "via (Go h m v) = Some m"
| "via _ = None"

fun is_node :: "('e, 'm, 'w) val \<Rightarrow> bool" where
  "is_node (Node _ _ _) = True"
| "is_node _ = False"

fun is_string :: "('e, 'm, 'w) val \<Rightarrow> bool" where
  "is_string (GoString _) = True"
| "is_string _ = False"

text \<open>
  The raw envelopes among the elements of an action node's content, in order: the
  elements for which the assertion \<^verbatim>\<open>con[a].(*proto.WebMessageInfo)\<close> succeeds.
\<close>

fun raw_envelopes :: "('e, 'm, 'w) val list \<Rightarrow> 'w list" where
  "raw_envelopes [] = []"
| "raw_envelopes (WebMessageInfo v # con) = v # raw_envelopes con"
| "raw_envelopes (_ # con) = raw_envelopes con"

text \<open>
  The events an action node stands for: each raw envelope, followed by its decoding when
  that is a chat message.
\<close>

definition action_events ::
  "('w \<Rightarrow> ('e, 'm, 'w) val) \<Rightarrow> ('e, 'm, 'w) val list \<Rightarrow> ('e, 'm, 'w) val list"
where
  "action_events parse con =
     concat (map (\<lambda>v. WebMessageInfo v # (if is_chat (parse v) then [parse v] else []))
       (raw_envelopes con))"

text \<open>
  What the specification assumes of the message decoder on the envelopes of a node: it
  gives a typed chat message or nothing that can be delivered (\<^verbatim>\<open>nil\<close>, or a value of
  a type \<^verbatim>\<open>handleMessage\<close> has no case for).
\<close>

definition decoder_contract ::
  "('w \<Rightarrow> ('e, 'm, 'w) val) \<Rightarrow> ('e, 'm, 'w) val list \<Rightarrow> bool"
where
  "decoder_contract parse con =
     list_all (\<lambda>v. is_chat (parse v) \<or> callback (parse v) = None) (raw_envelopes con)"

section \<open>The fan-out loop\<close>

lemma range_handlers_guard:
  "range_handlers (\<lambda>h. if P h then [f h] else []) hs = map f (filter P hs)"
  by (induction hs) simp_all

lemma range_handlers_always: "range_handlers (\<lambda>h. [f h]) hs = map f hs"
  by (induction hs) simp_all

text \<open>The ten loops of \<^verbatim>\<open>handleMessage\<close> together are the fan-out of the specification.\<close>

lemma handleMessage_fanout: "handleMessage e hs = fanout e hs"
  by (cases e) (simp_all add: fanout_def range_handlers_guard range_handlers_always)

lemma qualifies_recognized: "qualifies H e \<Longrightarrow> callback e \<noteq> None"
  by (cases e) simp_all

lemma chat_not_raw_callback: "is_chat x \<Longrightarrow> callback x \<noteq> Some HandleRawMessage"
  by (cases x) simp_all

lemma count_fanout_entry:
  "count_list (map (\<lambda>h. Go h m e) (filter P hs)) (Go H m e) =
     (if P H then count_list hs H else 0)"
  by (induction hs) auto

lemma count_in_mapped:
  "length (filter (\<lambda>x. receiver x = Some H \<and> Q (via x)) (map (\<lambda>h. Go h m e) (filter P hs))) =
     (if P H \<and> Q (Some m) then count_list hs H else 0)"
  by (induction hs) auto

lemma fanout_count:
  "callback E = Some m \<Longrightarrow>
     count_list (fanout E hs) (Go H m E) = (if qualifies H E then count_list hs H else 0)"
  by (simp add: fanout_def count_fanout_entry)

lemma count_in_fanout:
  "length (filter (\<lambda>x. receiver x = Some H \<and> Q (via x)) (fanout e hs)) =
     (if qualifies H e \<and> Q (callback e) then count_list hs H else 0)"
proof (cases "callback e")
  case None
  then have "\<not> qualifies H e" using qualifies_recognized by blast
  with None show ?thesis by (simp add: fanout_def)
next
  case (Some m)
  then show ?thesis
    using count_in_mapped [of H Q m e "\<lambda>h. qualifies h e" hs] by (simp add: fanout_def)
qed

lemma fanout_receivers:
  "length (filter (\<lambda>x. receiver x = Some H) (fanout E hs)) =
     (if qualifies H E then count_list hs H else 0)"
  using count_in_fanout [of H "\<lambda>k. True" E hs] by simp

lemma fanout_only_deliveries: "filter (\<lambda>x. \<not> is_delivery x) (fanout E hs) = []"
  by (cases "callback E") (simp_all add: fanout_def filter_empty_conv)

lemma fanout_removeAll: "\<not> qualifies H E \<Longrightarrow> fanout E (removeAll H hs) = fanout E hs"
proof (induction hs)
  case Nil
  then show ?case by simp
next
  case (Cons h hs)
  then show ?case by (cases "callback E") (auto simp: fanout_def)
qed

lemma count_in_fanouts:
  "length (filter (\<lambda>x. receiver x = Some H \<and> Q (via x)) (concat (map (\<lambda>e. fanout e hs) es))) =
     count_list hs H * length (filter (\<lambda>e. qualifies H e \<and> Q (callback e)) es)"
proof (induction es)
  case Nil
  then show ?case by simp
next
  case (Cons e es)
  then show ?case by (simp add: count_in_fanout)
qed

section \<open>The loop over an action node's content\<close>

lemma range_con_raw_envelopes:
  "range_con parse wac con =
     concat (map (\<lambda>v. handleMessage (WebMessageInfo v) (handler wac)
                      @ handleMessage (parse v) (handler wac)) (raw_envelopes con))"
  by (induction con rule: raw_envelopes.induct) (simp_all add: handle_def)

lemma handleMessage_decoded:
  "is_chat x \<or> callback x = None \<Longrightarrow>
     handleMessage x hs = concat (map (\<lambda>e. fanout e hs) (if is_chat x then [x] else []))"
  by (auto simp: handleMessage_fanout fanout_def)

lemma concat_fanout_events:
  "list_all (\<lambda>v. is_chat (parse v) \<or> callback (parse v) = None) vs \<Longrightarrow>
     concat (map (\<lambda>v. handleMessage (WebMessageInfo v) hs @ handleMessage (parse v) hs) vs) =
     concat (map (\<lambda>e. fanout e hs)
       (concat (map (\<lambda>v. WebMessageInfo v # (if is_chat (parse v) then [parse v] else [])) vs)))"
proof (induction vs)
  case Nil
  then show ?case by simp
next
  case (Cons v vs)
  then have "is_chat (parse v) \<or> callback (parse v) = None" by simp
  then have "handleMessage (parse v) hs =
      concat (map (\<lambda>e. fanout e hs) (if is_chat (parse v) then [parse v] else []))"
    by (rule handleMessage_decoded)
  moreover have "handleMessage (WebMessageInfo v) hs = fanout (WebMessageInfo v) hs"
    by (rule handleMessage_fanout)
  ultimately show ?case using Cons by simp
qed

lemma events_length:
  "length (concat (map (\<lambda>v. WebMessageInfo v # (if is_chat (parse v) then [parse v] else [])) vs))
   = length vs + length (filter (\<lambda>v. is_chat (parse v)) vs)"
  by (induction vs) simp_all

lemma events_raw_count:
  "length (filter is_raw
      (concat (map (\<lambda>v. WebMessageInfo v # (if is_chat (parse v) then [parse v] else [])) vs)))
   = length vs"
proof (induction vs)
  case Nil
  then show ?case by simp
next
  case (Cons v vs)
  have "is_chat (parse v) \<Longrightarrow> \<not> is_raw (parse v)" by (cases "parse v") simp_all
  with Cons show ?case by simp
qed

lemma events_chat_count:
  "length (filter is_chat
      (concat (map (\<lambda>v. WebMessageInfo v # (if is_chat (parse v) then [parse v] else [])) vs)))
   = length (filter (\<lambda>v. is_chat (parse v)) vs)"
  by (induction vs) simp_all

lemma events_raw_qualifying:
  "length (filter (\<lambda>e. qualifies H e \<and> callback e = Some HandleRawMessage)
      (concat (map (\<lambda>v. WebMessageInfo v # (if is_chat (parse v) then [parse v] else [])) vs)))
   = (if RawMessageHandler \<in> implements H then length vs else 0)"
  by (induction vs) (simp_all add: chat_not_raw_callback)

lemma events_chat_qualifying:
  "length (filter (\<lambda>e. qualifies H e \<and> callback e \<noteq> Some HandleRawMessage)
      (concat (map (\<lambda>v. WebMessageInfo v # (if is_chat (parse v) then [parse v] else [])) vs)))
   = length (filter (\<lambda>v. is_chat (parse v) \<and> qualifies H (parse v)) vs)"
  by (induction vs) (simp_all add: chat_not_raw_callback)

section \<open>Delivery by handleMessage\<close>

text \<open>
  Claim C1 (completeness, exactly once). Let \<open>E\<close> be a recognized event, \<open>m\<close> its capability
  method, and \<open>H\<close> a handler that satisfies the capability interface of \<open>E\<close>. One call
  \<^verbatim>\<open>handleMessage(E, hs)\<close> starts the delivery \<^verbatim>\<open>go H.m(E)\<close> once for every occurrence
  of \<open>H\<close> in \<open>hs\<close>, starts no other goroutine on \<open>H\<close>, and so delivers at least once to
  every such \<open>H\<close> that is in the list.
\<close>

theorem handleMessage_exactly_once:
  assumes "callback E = Some m" and "qualifies H E"
  shows "count_list (handleMessage E hs) (Go H m E) = count_list hs H
       \<and> length (filter (\<lambda>x. receiver x = Some H) (handleMessage E hs)) = count_list hs H
       \<and> (H \<in> set hs \<longrightarrow> Go H m E \<in> set (handleMessage E hs))"
proof -
  have c: "count_list (handleMessage E hs) (Go H m E) = count_list hs H"
    using assms by (simp add: handleMessage_fanout fanout_count)
  have r: "length (filter (\<lambda>x. receiver x = Some H) (handleMessage E hs)) = count_list hs H"
    using assms by (simp add: handleMessage_fanout fanout_receivers)
  have "Go H m E \<in> set (handleMessage E hs)" if "H \<in> set hs"
  proof -
    from that have "count_list hs H \<noteq> 0" by (simp add: count_list_0_iff)
    with c have "count_list (handleMessage E hs) (Go H m E) \<noteq> 0" by simp
    then show ?thesis by (simp add: count_list_0_iff)
  qed
  with c r show ?thesis by blast
qed

theorem handleMessage_exactly_once_witness:
  "callback (TextMessage 7 :: (unit, nat, unit) val) = Some HandleTextMessage
   \<and> qualifies \<lparr>ident = 1, implements = {TextMessageHandler}\<rparr> (TextMessage 7 :: (unit, nat, unit) val)
   \<and> count_list
        (handleMessage (TextMessage 7 :: (unit, nat, unit) val)
           [\<lparr>ident = 1, implements = {TextMessageHandler}\<rparr>,
            \<lparr>ident = 2, implements = {ImageMessageHandler}\<rparr>,
            \<lparr>ident = 1, implements = {TextMessageHandler}\<rparr>])
        (Go \<lparr>ident = 1, implements = {TextMessageHandler}\<rparr> HandleTextMessage (TextMessage 7)) = 2"
  using handleMessage_exactly_once
    [of "TextMessage 7 :: (unit, nat, unit) val" HandleTextMessage
        "\<lparr>ident = 1, implements = {TextMessageHandler}\<rparr>"
        "[\<lparr>ident = 1, implements = {TextMessageHandler}\<rparr>,
          \<lparr>ident = 2, implements = {ImageMessageHandler}\<rparr>,
          \<lparr>ident = 1, implements = {TextMessageHandler}\<rparr>]"]
  by simp

text \<open>
  Claim C2 (universality of error delivery). For an error \<open>e\<close>, \<^verbatim>\<open>handleMessage\<close> starts
  \<^verbatim>\<open>go h.HandleError(e)\<close> for every entry \<open>h\<close> of the list, in list order, whatever
  optional interfaces \<open>h\<close> implements: the result does not look at \<open>implements h\<close>, and
  every handler \<open>H\<close> receives the error once per occurrence in the list.
\<close>

theorem handleMessage_error_universal:
  "handleMessage (GoError e) hs = map (\<lambda>h. Go h HandleError (GoError e)) hs
   \<and> count_list (handleMessage (GoError e) hs) (Go H HandleError (GoError e)) = count_list hs H
   \<and> set (handleMessage (GoError e) hs) = (\<lambda>h. Go h HandleError (GoError e)) ` set hs"
proof -
  have m: "handleMessage (GoError e) hs = map (\<lambda>h. Go h HandleError (GoError e)) hs"
    by (simp add: range_handlers_always)
  have c: "count_list (handleMessage (GoError e) hs) (Go H HandleError (GoError e)) = count_list hs H"
    by (simp add: handleMessage_fanout fanout_count)
  have s: "set (handleMessage (GoError e) hs) = (\<lambda>h. Go h HandleError (GoError e)) ` set hs"
    by (simp only: m set_map)
  from m c s show ?thesis by (intro conjI)
qed

theorem handleMessage_error_universal_witness:
  "handleMessage (GoError ''closed'' :: (string, unit, unit) val)
     [\<lparr>ident = 1, implements = {}\<rparr>,
      \<lparr>ident = 2, implements = {ImageMessageHandler, RawMessageHandler}\<rparr>]
   = [Go \<lparr>ident = 1, implements = {}\<rparr> HandleError (GoError ''closed''),
      Go \<lparr>ident = 2, implements = {ImageMessageHandler, RawMessageHandler}\<rparr> HandleError
        (GoError ''closed'')]"
  using handleMessage_error_universal
    [of "''closed''"
        "[\<lparr>ident = 1, implements = {}\<rparr>,
          \<lparr>ident = 2, implements = {ImageMessageHandler, RawMessageHandler}\<rparr>]"]
  by simp

text \<open>
  Claim C4 (non-leakage). Let \<open>E\<close> be a value that is not an error and \<open>H\<close> a handler that
  does not implement the capability interface of \<open>E\<close>. Then \<^verbatim>\<open>handleMessage(E, hs)\<close>
  starts no goroutine on \<open>H\<close>; skipping \<open>H\<close> has no effect of its own, since the call does
  exactly what it does on the list without \<open>H\<close>; and the call does nothing but start
  deliveries (it has no error result, writes no diagnostic and calls no store).
\<close>

theorem handleMessage_no_leak:
  assumes "\<not> is_error E" and "\<not> qualifies H E"
  shows "filter (\<lambda>x. receiver x = Some H) (handleMessage E hs) = []
       \<and> handleMessage E (removeAll H hs) = handleMessage E hs
       \<and> filter (\<lambda>x. \<not> is_delivery x) (handleMessage E hs) = []"
proof -
  have "length (filter (\<lambda>x. receiver x = Some H) (handleMessage E hs)) = 0"
    using assms(2) by (simp add: handleMessage_fanout fanout_receivers)
  then have "filter (\<lambda>x. receiver x = Some H) (handleMessage E hs) = []"
    by (rule length_0_conv [THEN iffD1])
  moreover have "handleMessage E (removeAll H hs) = handleMessage E hs"
    using assms(2) by (simp add: handleMessage_fanout fanout_removeAll)
  moreover have "filter (\<lambda>x. \<not> is_delivery x) (handleMessage E hs) = []"
    by (simp only: handleMessage_fanout fanout_only_deliveries)
  ultimately show ?thesis by blast
qed

theorem handleMessage_no_leak_witness:
  "\<not> is_error (ImageMessage 3 :: (unit, nat, unit) val)
   \<and> \<not> qualifies \<lparr>ident = 1, implements = {TextMessageHandler}\<rparr>
         (ImageMessage 3 :: (unit, nat, unit) val)
   \<and> filter (\<lambda>x. receiver x = Some \<lparr>ident = 1, implements = {TextMessageHandler}\<rparr>)
        (handleMessage (ImageMessage 3 :: (unit, nat, unit) val)
          [\<lparr>ident = 1, implements = {TextMessageHandler}\<rparr>,
           \<lparr>ident = 2, implements = {ImageMessageHandler}\<rparr>]) = []
   \<and> handleMessage (ImageMessage 3 :: (unit, nat, unit) val)
          [\<lparr>ident = 1, implements = {TextMessageHandler}\<rparr>,
           \<lparr>ident = 2, implements = {ImageMessageHandler}\<rparr>]
       = [Go \<lparr>ident = 2, implements = {ImageMessageHandler}\<rparr> HandleImageMessage (ImageMessage 3)]"
  using handleMessage_no_leak
    [of "ImageMessage 3 :: (unit, nat, unit) val"
        "\<lparr>ident = 1, implements = {TextMessageHandler}\<rparr>"
        "[\<lparr>ident = 1, implements = {TextMessageHandler}\<rparr>,
          \<lparr>ident = 2, implements = {ImageMessageHandler}\<rparr>]"]
  by simp

text \<open>
  Claim C6, as the code has it. The type switch of \<^verbatim>\<open>handleMessage\<close> has no default
  case, so a value of none of the recognized kinds causes no delivery and nothing else
  either: no diagnostic is written. The only write to standard error is in the default
  case of \<^verbatim>\<open>dispatch\<close>.
\<close>

theorem handleMessage_unrecognized_silent:
  assumes "callback v = None"
  shows "handleMessage v hs = []"
  using assms by (simp add: handleMessage_fanout fanout_def)

theorem handleMessage_unrecognized_silent_witness:
  "callback (Other ''int'' :: (unit, unit, unit) val) = None
   \<and> handleMessage (Other ''int'' :: (unit, unit, unit) val)
        [\<lparr>ident = 1, implements = {JsonMessageHandler, RawMessageHandler}\<rparr>] = []"
  using handleMessage_unrecognized_silent
    [of "Other ''int'' :: (unit, unit, unit) val"
        "[\<lparr>ident = 1, implements = {JsonMessageHandler, RawMessageHandler}\<rparr>]"]
  by simp

text \<open>
  Claim C6 as stated says that such a value is not delivered and is logged. For a value
  of type \<^verbatim>\<open>int\<close> the effects of \<^verbatim>\<open>handleMessage\<close> hold no diagnostic.
\<close>

theorem handleMessage_unrecognized_logged_counterexample:
  "\<not> (filter is_delivery (handleMessage (Other ''int'' :: (unit, unit, unit) val)
          [\<lparr>ident = 1, implements = {JsonMessageHandler, RawMessageHandler}\<rparr>]) = []
      \<and> filter is_diagnostic (handleMessage (Other ''int'' :: (unit, unit, unit) val)
          [\<lparr>ident = 1, implements = {JsonMessageHandler, RawMessageHandler}\<rparr>]) \<noteq> [])"
  by simp

section \<open>Routing by dispatch\<close>

text \<open>
  Claim C3 (action nodes). Take a node with description \<^verbatim>\<open>action\<close> whose content is a
  sequence, and a decoder that gives, on each raw envelope of the sequence, a chat
  message or nothing deliverable. Then \<^verbatim>\<open>dispatch\<close> does exactly the fan-out of the
  events of the node, in order; among these events the raw envelopes are as many as the
  raw-envelope elements (k) and the chat messages as many as the envelopes that decode to
  one (d), and there are no others; an element that decodes to nothing deliverable
  contributes its raw fan-out only; and a handler \<open>H\<close> gets k raw deliveries per
  occurrence in the list when it implements \<^verbatim>\<open>RawMessageHandler\<close> and none otherwise,
  and one chat delivery per occurrence for each envelope decoding to a chat message
  whose interface it implements.
\<close>

theorem dispatch_action_counts:
  assumes "decoder_contract parse con"
  shows "dispatch parse wac (Node ''action'' attrs (Slice con)) =
           concat (map (\<lambda>e. fanout e (handler wac)) (action_events parse con))
       \<and> length (filter is_raw (action_events parse con)) = length (raw_envelopes con)
       \<and> length (filter is_chat (action_events parse con)) =
           length (filter (\<lambda>v. is_chat (parse v)) (raw_envelopes con))
       \<and> length (action_events parse con) =
           length (raw_envelopes con) + length (filter (\<lambda>v. is_chat (parse v)) (raw_envelopes con))
       \<and> (callback (parse w) = None \<longrightarrow>
            dispatch parse wac (Node ''action'' attrs (Slice [WebMessageInfo w])) =
              fanout (WebMessageInfo w) (handler wac))
       \<and> length (filter (\<lambda>x. receiver x = Some H \<and> via x = Some HandleRawMessage)
              (dispatch parse wac (Node ''action'' attrs (Slice con)))) =
            count_list (handler wac) H *
              (if RawMessageHandler \<in> implements H then length (raw_envelopes con) else 0)
       \<and> length (filter (\<lambda>x. receiver x = Some H \<and> via x \<noteq> Some HandleRawMessage)
              (dispatch parse wac (Node ''action'' attrs (Slice con)))) =
            count_list (handler wac) H *
              length (filter (\<lambda>v. is_chat (parse v) \<and> qualifies H (parse v)) (raw_envelopes con))"
proof -
  have d: "dispatch parse wac (Node ''action'' attrs (Slice con)) =
           concat (map (\<lambda>e. fanout e (handler wac)) (action_events parse con))"
    using assms concat_fanout_events [of parse "raw_envelopes con" "handler wac"]
    by (simp add: decoder_contract_def range_con_raw_envelopes action_events_def)
  have r: "length (filter is_raw (action_events parse con)) = length (raw_envelopes con)"
    unfolding action_events_def by (rule events_raw_count)
  have c: "length (filter is_chat (action_events parse con)) =
           length (filter (\<lambda>v. is_chat (parse v)) (raw_envelopes con))"
    unfolding action_events_def by (rule events_chat_count)
  have n: "length (action_events parse con) =
           length (raw_envelopes con) + length (filter (\<lambda>v. is_chat (parse v)) (raw_envelopes con))"
    unfolding action_events_def by (rule events_length)
  have e: "dispatch parse wac (Node ''action'' attrs (Slice [WebMessageInfo w])) =
              fanout (WebMessageInfo w) (handler wac)" if "callback (parse w) = None"
  proof -
    have "dispatch parse wac (Node ''action'' attrs (Slice [WebMessageInfo w])) =
            handle wac (WebMessageInfo w) @ handle wac (parse w)"
      by simp
    also have "\<dots> = fanout (WebMessageInfo w) (handler wac) @ fanout (parse w) (handler wac)"
      by (simp only: handle_def handleMessage_fanout)
    also have "fanout (parse w) (handler wac) = []"
      using that by (simp add: fanout_def)
    finally show ?thesis by simp
  qed
  have rh: "length (filter (\<lambda>x. receiver x = Some H \<and> via x = Some HandleRawMessage)
              (dispatch parse wac (Node ''action'' attrs (Slice con)))) =
            count_list (handler wac) H *
              (if RawMessageHandler \<in> implements H then length (raw_envelopes con) else 0)"
    unfolding d action_events_def
    by (simp only: count_in_fanouts [where Q = "\<lambda>k. k = Some HandleRawMessage"]
          events_raw_qualifying)
  have ch: "length (filter (\<lambda>x. receiver x = Some H \<and> via x \<noteq> Some HandleRawMessage)
              (dispatch parse wac (Node ''action'' attrs (Slice con)))) =
            count_list (handler wac) H *
              length (filter (\<lambda>v. is_chat (parse v) \<and> qualifies H (parse v)) (raw_envelopes con))"
    unfolding d action_events_def
    by (simp only: count_in_fanouts [where Q = "\<lambda>k. k \<noteq> Some HandleRawMessage"]
          events_chat_qualifying)
  from d r c n e rh ch show ?thesis by blast
qed

theorem dispatch_action_counts_witness:
  "decoder_contract
     (\<lambda>w. if w = 1 then TextMessage 10 else if w = 2 then ImageMessage 20 else GoNil)
     ([WebMessageInfo 1, WebMessageInfo 2, Other ''binary.Node'', WebMessageInfo 3]
        :: (unit, nat, nat) val list)
   \<and> dispatch (\<lambda>w. if w = 1 then TextMessage 10 else if w = 2 then ImageMessage 20 else GoNil)
       \<lparr>handler = [\<lparr>ident = 1, implements = {TextMessageHandler}\<rparr>,
                   \<lparr>ident = 2, implements = {ImageMessageHandler}\<rparr>,
                   \<lparr>ident = 3, implements = {RawMessageHandler}\<rparr>]\<rparr>
       (Node ''action'' Map.empty
          (Slice [WebMessageInfo 1, WebMessageInfo 2, Other ''binary.Node'', WebMessageInfo 3])
        :: (unit, nat, nat) val)
     = [Go \<lparr>ident = 3, implements = {RawMessageHandler}\<rparr> HandleRawMessage (WebMessageInfo 1),
        Go \<lparr>ident = 1, implements = {TextMessageHandler}\<rparr> HandleTextMessage (TextMessage 10),
        Go \<lparr>ident = 3, implements = {RawMessageHandler}\<rparr> HandleRawMessage (WebMessageInfo 2),
        Go \<lparr>ident = 2, implements = {ImageMessageHandler}\<rparr> HandleImageMessage (ImageMessage 20),
        Go \<lparr>ident = 3, implements = {RawMessageHandler}\<rparr> HandleRawMessage (WebMessageInfo 3)]
   \<and> length (filter is_raw (action_events
        (\<lambda>w. if w = 1 then TextMessage 10 else if w = 2 then ImageMessage 20 else GoNil)
        ([WebMessageInfo 1, WebMessageInfo 2, Other ''binary.Node'', WebMessageInfo 3]
           :: (unit, nat, nat) val list))) = 3
   \<and> length (filter is_chat (action_events
        (\<lambda>w. if w = 1 then TextMessage 10 else if w = 2 then ImageMessage 20 else GoNil)
        ([WebMessageInfo 1, WebMessageInfo 2, Other ''binary.Node'', WebMessageInfo 3]
           :: (unit, nat, nat) val list))) = 2"
  using dispatch_action_counts
    [of "\<lambda>w. if w = 1 then TextMessage 10 else if w = 2 then ImageMessage 20 else GoNil"
        "[WebMessageInfo 1, WebMessageInfo 2, Other ''binary.Node'', WebMessageInfo 3]
           :: (unit, nat, nat) val list"
        "\<lparr>handler = [\<lparr>ident = 1, implements = {TextMessageHandler}\<rparr>,
                   \<lparr>ident = 2, implements = {ImageMessageHandler}\<rparr>,
                   \<lparr>ident = 3, implements = {RawMessageHandler}\<rparr>]\<rparr>"
        Map.empty 3 "\<lparr>ident = 3, implements = {RawMessageHandler}\<rparr>"]
  by (simp add: decoder_contract_def action_events_def fanout_def handle_def)

text \<open>
  Claim C5 (contacts response). For a node with description \<^verbatim>\<open>response\<close> whose
  attribute \<^verbatim>\<open>type\<close> is \<^verbatim>\<open>contacts\<close>, all that \<^verbatim>\<open>dispatch\<close> does is one call of
  \<^verbatim>\<open>updateContacts\<close> on the node's content: no delivery to any handler.
\<close>

theorem dispatch_contacts_response:
  assumes "map_index attrs ''type'' = ''contacts''"
  shows "dispatch parse wac (Node ''response'' attrs content) = [UpdateContacts content]
       \<and> filter is_delivery (dispatch parse wac (Node ''response'' attrs content)) = []
       \<and> length (filter is_store_call (dispatch parse wac (Node ''response'' attrs content))) = 1"
  using assms by simp

theorem dispatch_contacts_response_witness:
  "map_index [''type'' \<mapsto> ''contacts''] ''type'' = ''contacts''
   \<and> dispatch (\<lambda>w. GoNil)
        \<lparr>handler = [\<lparr>ident = 1, implements = {JsonMessageHandler, RawMessageHandler}\<rparr>]\<rparr>
        (Node ''response'' [''type'' \<mapsto> ''contacts''] (Other ''[]binary.Node'')
          :: (unit, unit, unit) val)
     = [UpdateContacts (Other ''[]binary.Node'')]"
  using dispatch_contacts_response
    [of "[''type'' \<mapsto> ''contacts'']" "\<lambda>w. GoNil"
        "\<lparr>handler = [\<lparr>ident = 1, implements = {JsonMessageHandler, RawMessageHandler}\<rparr>]\<rparr>"
        "Other ''[]binary.Node'' :: (unit, unit, unit) val"]
  by (simp add: map_index_def)

text \<open>
  Claim C7 (top-level raw envelopes). A \<^verbatim>\<open>*proto.WebMessageInfo\<close> given to \<^verbatim>\<open>dispatch\<close>
  itself meets the default case: it is reported to standard error and no handler
  receives it. The same value given to \<^verbatim>\<open>handleMessage\<close> is delivered to every handler
  implementing \<^verbatim>\<open>RawMessageHandler\<close>, and so it is when it arrives as an element of an
  action node's content.
\<close>

theorem dispatch_top_level_raw_dropped:
  "dispatch parse wac (WebMessageInfo w) =
     [Fprintf_Stderr ''unknown type in dipatcher chan: %T'' (WebMessageInfo w)]
   \<and> filter is_delivery (dispatch parse wac (WebMessageInfo w)) = []
   \<and> handleMessage (WebMessageInfo w) hs =
       map (\<lambda>h. Go h HandleRawMessage (WebMessageInfo w))
         (filter (\<lambda>h. RawMessageHandler \<in> implements h) hs)
   \<and> dispatch parse wac (Node ''action'' attrs (Slice [WebMessageInfo w])) =
       handleMessage (WebMessageInfo w) (handler wac) @ handleMessage (parse w) (handler wac)"
  by (simp add: range_handlers_guard handle_def)

theorem dispatch_top_level_raw_dropped_witness:
  "dispatch (\<lambda>w. GoNil) \<lparr>handler = [\<lparr>ident = 1, implements = {RawMessageHandler}\<rparr>]\<rparr>
     (WebMessageInfo 5 :: (unit, unit, nat) val)
     = [Fprintf_Stderr ''unknown type in dipatcher chan: %T'' (WebMessageInfo 5)]
   \<and> dispatch (\<lambda>w. GoNil) \<lparr>handler = [\<lparr>ident = 1, implements = {RawMessageHandler}\<rparr>]\<rparr>
     (Node ''action'' Map.empty (Slice [WebMessageInfo 5]) :: (unit, unit, nat) val)
     = [Go \<lparr>ident = 1, implements = {RawMessageHandler}\<rparr> HandleRawMessage (WebMessageInfo 5)]"
  using dispatch_top_level_raw_dropped
    [of "\<lambda>w. GoNil" "\<lparr>handler = [\<lparr>ident = 1, implements = {RawMessageHandler}\<rparr>]\<rparr>"
        "5 :: nat" "[\<lparr>ident = 1, implements = {RawMessageHandler}\<rparr>]" Map.empty]
  by simp

text \<open>
  Claim C8 (nil and unknown top-level values). \<^verbatim>\<open>dispatch(nil)\<close> does nothing at all.
  A value that is not nil and is neither a node, an error nor a string is written to
  standard error with the format of the default case, and nothing else happens: no
  delivery and no call of the contact store.
\<close>

theorem dispatch_nil_and_unknown:
  "dispatch parse wac GoNil = []
   \<and> (v \<noteq> GoNil \<longrightarrow> \<not> is_node v \<longrightarrow> \<not> is_error v \<longrightarrow> \<not> is_string v \<longrightarrow>
        dispatch parse wac v = [Fprintf_Stderr ''unknown type in dipatcher chan: %T'' v])"
  by (cases v) simp_all

theorem dispatch_nil_and_unknown_witness:
  "dispatch (\<lambda>w. GoNil) \<lparr>handler = [\<lparr>ident = 1, implements = {TextMessageHandler}\<rparr>]\<rparr>
     (GoNil :: (unit, nat, unit) val) = []
   \<and> TextMessage 4 \<noteq> (GoNil :: (unit, nat, unit) val)
   \<and> \<not> is_node (TextMessage 4 :: (unit, nat, unit) val)
   \<and> \<not> is_error (TextMessage 4 :: (unit, nat, unit) val)
   \<and> \<not> is_string (TextMessage 4 :: (unit, nat, unit) val)
   \<and> dispatch (\<lambda>w. GoNil) \<lparr>handler = [\<lparr>ident = 1, implements = {TextMessageHandler}\<rparr>]\<rparr>
        (TextMessage 4 :: (unit, nat, unit) val)
      = [Fprintf_Stderr ''unknown type in dipatcher chan: %T'' (TextMessage 4)]"
  using dispatch_nil_and_unknown
    [of "\<lambda>w. GoNil" "\<lparr>handler = [\<lparr>ident = 1, implements = {TextMessageHandler}\<rparr>]\<rparr>"
        "TextMessage 4 :: (unit, nat, unit) val"]
  by simp

text \<open>
  Claim C9 (unmatched nodes). A node whose description is not \<^verbatim>\<open>action\<close> and which is
  not a \<^verbatim>\<open>response\<close> with attribute \<^verbatim>\<open>type\<close> equal to \<^verbatim>\<open>contacts\<close> makes
  \<^verbatim>\<open>dispatch\<close> do nothing: no delivery, no call of the contact store, no diagnostic.
\<close>

theorem dispatch_unmatched_node:
  assumes "description \<noteq> ''action''"
    and "\<not> (description = ''response'' \<and> map_index attrs ''type'' = ''contacts'')"
  shows "dispatch parse wac (Node description attrs content) = []"
  using assms by simp

theorem dispatch_unmatched_node_witness:
  "''response'' \<noteq> ''action''
   \<and> \<not> (''response'' = ''response'' \<and> map_index [''type'' \<mapsto> ''chat''] ''type'' = ''contacts'')
   \<and> dispatch (\<lambda>w. GoNil) \<lparr>handler = [\<lparr>ident = 1, implements = {RawMessageHandler}\<rparr>]\<rparr>
        (Node ''response'' [''type'' \<mapsto> ''chat''] (Slice [WebMessageInfo 5])
          :: (unit, unit, nat) val) = []"
  using dispatch_unmatched_node
    [of "''response''" "[''type'' \<mapsto> ''chat'']" "\<lambda>w. GoNil"
        "\<lparr>handler = [\<lparr>ident = 1, implements = {RawMessageHandler}\<rparr>]\<rparr>"
        "Slice [WebMessageInfo 5] :: (unit, unit, nat) val"]
  by (simp add: map_index_def)

section \<open>Registration\<close>

text \<open>
  Claim C10 (registration is a pure append). \<^verbatim>\<open>AddHandler\<close> is total (it has no error
  result); the new list is the old one followed by the handler, so the old entries keep
  their places and order and the handler is last; no other field of the connection
  changes; nothing is deduplicated: registering the same handler twice adds two
  entries, and a matching event is then delivered to it two more times.
\<close>

theorem AddHandler_append:
  "handler (AddHandler wac h) = handler wac @ [h]
   \<and> Conn.more (AddHandler wac h) = Conn.more wac
   \<and> take (length (handler wac)) (handler (AddHandler wac h)) = handler wac
   \<and> last (handler (AddHandler wac h)) = h
   \<and> length (handler (AddHandler wac h)) = Suc (length (handler wac))
   \<and> handler (AddHandler (AddHandler wac h) h) = handler wac @ [h, h]
   \<and> count_list (handler (AddHandler (AddHandler wac h) h)) h = count_list (handler wac) h + 2
   \<and> (callback E = Some m \<longrightarrow> qualifies h E \<longrightarrow>
        count_list (handleMessage E (handler (AddHandler (AddHandler wac h) h))) (Go h m E) =
        count_list (handleMessage E (handler wac)) (Go h m E) + 2)"
  by (simp add: AddHandler_def handleMessage_fanout fanout_count)

theorem AddHandler_append_witness:
  "handler (AddHandler (AddHandler \<lparr>handler = [\<lparr>ident = 2, implements = {}\<rparr>]\<rparr>
       \<lparr>ident = 1, implements = {TextMessageHandler}\<rparr>)
       \<lparr>ident = 1, implements = {TextMessageHandler}\<rparr>)
     = [\<lparr>ident = 2, implements = {}\<rparr>, \<lparr>ident = 1, implements = {TextMessageHandler}\<rparr>,
        \<lparr>ident = 1, implements = {TextMessageHandler}\<rparr>]
   \<and> callback (TextMessage 7 :: (unit, nat, unit) val) = Some HandleTextMessage
   \<and> qualifies \<lparr>ident = 1, implements = {TextMessageHandler}\<rparr>
       (TextMessage 7 :: (unit, nat, unit) val)
   \<and> count_list (handleMessage (TextMessage 7 :: (unit, nat, unit) val)
        (handler (AddHandler (AddHandler \<lparr>handler = [\<lparr>ident = 2, implements = {}\<rparr>]\<rparr>
           \<lparr>ident = 1, implements = {TextMessageHandler}\<rparr>)
           \<lparr>ident = 1, implements = {TextMessageHandler}\<rparr>)))
        (Go \<lparr>ident = 1, implements = {TextMessageHandler}\<rparr> HandleTextMessage (TextMessage 7)) = 2"
  using AddHandler_append
    [of "\<lparr>handler = [\<lparr>ident = 2, implements = {}\<rparr>]\<rparr>"
        "\<lparr>ident = 1, implements = {TextMessageHandler}\<rparr>"
        "TextMessage 7 :: (unit, nat, unit) val" HandleTextMessage]
  by simp

end
